theory Spec2Isabelle
  imports Main "HOL-Library.Char_ord" "HOL-Library.List_Lexorder" "HOL-Library.AList"
    "HOL-Library.Multiset"
begin

section \<open>Values, exceptions and the pandas objects the code handles\<close>

text \<open>
  The library is Python: \<^verbatim>\<open>trajminer/trajectory_data.py\<close> (class
  \<^verbatim>\<open>TrajectoryData\<close>) and \<^verbatim>\<open>trajminer/utils/loader.py\<close> (class
  \<^verbatim>\<open>CSVTrajectoryLoader\<close>). A table cell, a trajectory identifier and a label is an
  integer or a string. Python orders integers among themselves and strings among
  themselves (by code point, which is the lexicographic order of \<^typ>\<open>string\<close>);
  ordering an integer against a string raises \<^verbatim>\<open>TypeError\<close>. Missing values
  (NaN) in a table are outside the model.
\<close>

datatype cell = is_IntV: IntV (the_int: int) | is_StrV: StrV (the_str: string)

datatype arg = Str string | Val cell

text \<open>
  Exceptions are values. \<open>AttributeError a\<close> is the failed lookup of attribute \<open>a\<close>,
  \<open>NameError n\<close> the failed lookup of the global name \<open>n\<close>, \<open>Exception args\<close> the
  plain \<^verbatim>\<open>Exception(*args)\<close> that \<^verbatim>\<open>merge\<close> raises. \<open>Unmodelled\<close> is not an
  exception: it marks a library call whose outcome depends on the pandas or numpy
  version (subscripting a Series or a DataFrame by position, a repeated column label);
  the model stops there. Such calls occur only on objects whose attributes were
  assigned from outside the class.
\<close>

datatype error =
    ValueError string
  | AttributeError string
  | TypeError string
  | KeyError
  | IndexError
  | NameError string
  | Exception "arg list"
  | Unmodelled

text \<open>
  A \<^verbatim>\<open>pandas.DataFrame\<close> is its column labels and its rows, each row holding one
  cell per column; a \<^verbatim>\<open>pandas.Series\<close> is its (index, value) pairs in order.
\<close>

record frame =
  columns :: "string list"
  rows :: "cell list list"

type_synonym series = "(cell \<times> cell) list"

fun col_pos :: "string \<Rightarrow> string list \<Rightarrow> nat" where
  "col_pos c [] = 0"
| "col_pos c (x # xs) = (if x = c then 0 else Suc (col_pos c xs))"

definition column :: "frame \<Rightarrow> string \<Rightarrow> cell list" where
  "column df c = map (\<lambda>r. r ! col_pos c (columns df)) (rows df)"

text \<open>
  Sorting by a key that is an integer throughout or a string throughout; any other
  mix is Python's \<^verbatim>\<open>TypeError\<close>. The sort is stable here; pandas's default
  algorithm does not promise the order among equal keys, and nothing below relies on it.
\<close>

definition sort_by_cell :: "('a \<Rightarrow> cell) \<Rightarrow> 'a list \<Rightarrow> error + 'a list" where
  "sort_by_cell k xs =
     (if list_all (\<lambda>x. is_IntV (k x)) xs then Inr (sort_key (\<lambda>x. the_int (k x)) xs)
      else if list_all (\<lambda>x. is_StrV (k x)) xs then Inr (sort_key (\<lambda>x. the_str (k x)) xs)
      else Inl (TypeError ''< not supported between instances of str and int''))"

text \<open>\<^verbatim>\<open>df.sort_values(by=c)\<close>: the label must name exactly one column.\<close>

definition sort_values :: "frame \<Rightarrow> string \<Rightarrow> error + frame" where
  "sort_values df c =
     (if c \<notin> set (columns df) then Inl KeyError
      else if count_list (columns df) c \<noteq> 1
      then Inl (ValueError ''The column label is not unique.'')
      else (case sort_by_cell (\<lambda>r. r ! col_pos c (columns df)) (rows df) of
              Inl e \<Rightarrow> Inl e
            | Inr rs \<Rightarrow> Inr (df\<lparr>rows := rs\<rparr>)))"

text \<open>\<^verbatim>\<open>labels.sort_index()\<close>.\<close>

definition sort_index :: "series \<Rightarrow> error + series" where
  "sort_index s = sort_by_cell fst s"

text \<open>\<^verbatim>\<open>Series.unique()\<close>: the distinct values in order of first appearance.\<close>

fun unique :: "'a list \<Rightarrow> 'a list" where
  "unique [] = []"
| "unique (x # xs) = x # unique (filter (\<lambda>y. y \<noteq> x) xs)"

text \<open>
  \<^verbatim>\<open>Series.drop_duplicates()\<close>: keeps the first entry of every distinct
  \<^emph>\<open>value\<close>; the index plays no part.
\<close>

fun drop_duplicates :: "series \<Rightarrow> series" where
  "drop_duplicates [] = []"
| "drop_duplicates (p # ps) = p # drop_duplicates (filter (\<lambda>q. snd q \<noteq> snd p) ps)"

text \<open>\<^verbatim>\<open>np.array_equal(a, b)\<close>: same shape and equal elements.\<close>

definition array_equal :: "cell list \<Rightarrow> cell list \<Rightarrow> bool" where
  "array_equal a b = (a = b)"

section \<open>The object: attributes that may never have been assigned\<close>

text \<open>
  A Python object holds the attributes that were assigned to it and no others;
  reading one that was never assigned raises \<^verbatim>\<open>AttributeError\<close>. Each attribute
  of a \<^verbatim>\<open>TrajectoryData\<close> is therefore an option: \<open>None\<close> is "never assigned".
  The values are those the class stores or tests for: \<^verbatim>\<open>data\<close> is the DataFrame
  \<^verbatim>\<open>__init__\<close> stores or the array \<^verbatim>\<open>_update\<close> stores; \<^verbatim>\<open>labels\<close> is Python's
  \<^verbatim>\<open>None\<close> (which the getters test for), the Series \<^verbatim>\<open>__init__\<close> stores, or what
  \<^verbatim>\<open>np.array(labels)\<close> gives in \<^verbatim>\<open>_update\<close>: an array of labels, or for
  \<^verbatim>\<open>labels=None\<close> the zero-dimensional array holding \<^verbatim>\<open>None\<close>.
  A point is one value per attribute, possibly \<^verbatim>\<open>None\<close>.
\<close>

type_synonym point = "cell option list"
type_synonym traj = "point list"

datatype data_val = DataFrame frame | DataArray "traj list"

datatype labels_val = PyNone | Series series | LabelArray "cell list" | LabelArray0

text \<open>
  The summary \<^verbatim>\<open>stats\<close> caches. numpy's \<^verbatim>\<open>mean\<close> and \<^verbatim>\<open>std\<close> are floating
  point; their results are kept symbolic, as the operation and the integers it was
  applied to.
\<close>

datatype npfloat = Mean "nat list" | Std "nat list"

record dist =
  d_min :: nat
  d_avg :: npfloat
  d_std :: npfloat
  d_max :: nat

record summary =
  attribute_count :: nat
  attribute_dist :: dist
  point_count :: nat
  trajectory_count :: nat
  trajectory_length :: dist
  label_block :: "(nat \<times> dist) option"

record obj =
  data :: "data_val option"
  labels :: "labels_val option"
  tids :: "cell list option"
  attributes :: "string list option"
  tidToIdx :: "(cell \<times> nat) list option"
  labelToIdx :: "(cell \<times> nat list) list option option"
  p_stats :: "summary option option"

text \<open>A freshly allocated instance: nothing assigned yet.\<close>

definition new_obj :: obj where
  "new_obj = \<lparr>data = None, labels = None, tids = None, attributes = None,
              tidToIdx = None, labelToIdx = None, p_stats = None\<rparr>"

definition getattr :: "string \<Rightarrow> 'a option \<Rightarrow> error + 'a" where
  "getattr name slot = (case slot of None \<Rightarrow> Inl (AttributeError name) | Some v \<Rightarrow> Inr v)"

section \<open>\<^verbatim>\<open>TrajectoryData.__init__\<close> (trajectory_data.py, lines 14-25)\<close>

text \<open>
  \<^verbatim>\<open>
  def __init__(self, df, labels=None):
      if 'tid' not in df.columns:
          raise ValueError("Trajectory dataframe must have a 'tid' column.")
      df = df.sort_values(by='tid').reset_index(drop=True)
      labels = labels.sort_index()
      if labels is not None and not np.array_equal(df['tid'].unique(), labels.index):
          raise ValueError("Trajectory dataframe tids must match with labels's index.")
      self.data = df
      self.labels = labels
  \<close>
  Line 19 calls \<^verbatim>\<open>sort_index\<close> on \<^verbatim>\<open>labels\<close> before the test for \<^verbatim>\<open>None\<close> of
  line 21. The constructor assigns \<^verbatim>\<open>data\<close> and \<^verbatim>\<open>labels\<close> and nothing else.
\<close>

definition no_tid_column :: string where
  "no_tid_column = ''Trajectory dataframe must have a 'tid' column.''"

definition labels_mismatch :: string where
  "labels_mismatch = ''Trajectory dataframe tids must match with labels's index.''"

definition TrajectoryData :: "frame \<Rightarrow> series option \<Rightarrow> error + obj" where
  "TrajectoryData df lbls =
     (if ''tid'' \<notin> set (columns df) then Inl (ValueError no_tid_column)
      else (case sort_values df ''tid'' of
              Inl e \<Rightarrow> Inl e
            | Inr df' \<Rightarrow>
                (case lbls of
                   None \<Rightarrow> Inl (AttributeError ''sort_index'')
                 | Some s \<Rightarrow>
                     (case sort_index s of
                        Inl e \<Rightarrow> Inl e
                      | Inr s' \<Rightarrow>
                          if \<not> array_equal (unique (column df' ''tid'')) (map fst s')
                          then Inl (ValueError labels_mismatch)
                          else Inr (new_obj\<lparr>data := Some (DataFrame df'),
                                            labels := Some (Series s')\<rparr>)))))"


section \<open>The getters (trajectory_data.py, lines 27-137)\<close>

text \<open>\<^verbatim>\<open>return self.attributes\<close>\<close>

definition get_attributes :: "obj \<Rightarrow> error + string list" where
  "get_attributes self = getattr ''attributes'' (attributes self)"

text \<open>Python's truth value of the \<^verbatim>\<open>label\<close> argument: \<^verbatim>\<open>None\<close>, \<^verbatim>\<open>0\<close> and \<^verbatim>\<open>''\<close> are false.\<close>

fun truthy :: "cell option \<Rightarrow> bool" where
  "truthy None = False"
| "truthy (Some (IntV i)) = (i \<noteq> 0)"
| "truthy (Some (StrV s)) = (s \<noteq> [])"

text \<open>\<^verbatim>\<open>a[idxs]\<close> for a list of positions.\<close>

definition take_idxs :: "'a list \<Rightarrow> nat list \<Rightarrow> error + 'a list" where
  "take_idxs xs idxs =
     (if list_all (\<lambda>i. i < length xs) idxs then Inr (map (\<lambda>i. xs ! i) idxs) else Inl IndexError)"

text \<open>\<^verbatim>\<open>self.labelToIdx[label]\<close>\<close>

definition label_idxs :: "obj \<Rightarrow> cell \<Rightarrow> error + nat list" where
  "label_idxs self l =
     (case labelToIdx self of
        None \<Rightarrow> Inl (AttributeError ''labelToIdx'')
      | Some None \<Rightarrow> Inl (TypeError ''NoneType object is not subscriptable'')
      | Some (Some d) \<Rightarrow> (case map_of d l of None \<Rightarrow> Inl KeyError | Some idxs \<Rightarrow> Inr idxs))"

text \<open>
  \<^verbatim>\<open>
  def get_tids(self, label=None):
      if not label or self.labels is None:
          return self.tids
      idxs = self.labelToIdx[label]
      return self.tids[idxs]
  \<close>
  \<^verbatim>\<open>or\<close> does not read \<^verbatim>\<open>self.labels\<close> when \<^verbatim>\<open>label\<close> is false.
\<close>

definition get_tids :: "obj \<Rightarrow> cell option \<Rightarrow> error + cell list" where
  "get_tids self label =
     (if \<not> truthy label then getattr ''tids'' (tids self)
      else (case labels self of
              None \<Rightarrow> Inl (AttributeError ''labels'')
            | Some PyNone \<Rightarrow> getattr ''tids'' (tids self)
            | Some _ \<Rightarrow>
                (case label_idxs self (the label) of
                   Inl e \<Rightarrow> Inl e
                 | Inr idxs \<Rightarrow>
                     (case tids self of
                        None \<Rightarrow> Inl (AttributeError ''tids'')
                      | Some ts \<Rightarrow> take_idxs ts idxs))))"

text \<open>\<^verbatim>\<open>self.tidToIdx[tid]\<close>\<close>

definition tid_idx :: "obj \<Rightarrow> cell \<Rightarrow> error + nat" where
  "tid_idx self tid =
     (case tidToIdx self of
        None \<Rightarrow> Inl (AttributeError ''tidToIdx'')
      | Some d \<Rightarrow> (case map_of d tid of None \<Rightarrow> Inl KeyError | Some i \<Rightarrow> Inr i))"

text \<open>
  \<^verbatim>\<open>return self.labels[self.tidToIdx[tid]]\<close>: Python reads \<^verbatim>\<open>self.labels\<close>, then
  \<^verbatim>\<open>self.tidToIdx[tid]\<close>, then subscripts.
\<close>

definition get_label :: "obj \<Rightarrow> cell \<Rightarrow> error + cell" where
  "get_label self tid =
     (case labels self of
        None \<Rightarrow> Inl (AttributeError ''labels'')
      | Some lv \<Rightarrow>
          (case tid_idx self tid of
             Inl e \<Rightarrow> Inl e
           | Inr i \<Rightarrow>
               (case lv of
                  PyNone \<Rightarrow> Inl (TypeError ''NoneType object is not subscriptable'')
                | Series s \<Rightarrow> Inl Unmodelled
                | LabelArray ls \<Rightarrow> (if i < length ls then Inr (ls ! i) else Inl IndexError)
                | LabelArray0 \<Rightarrow> Inl IndexError)))"

text \<open>
  \<^verbatim>\<open>
  def get_labels(self, unique=False):
      if unique and self.labels is not None:
          return sorted(list(set(self.labels)))
      return self.labels
  \<close>
  Iterating a Series gives its values; iterating a zero-dimensional array raises
  \<^verbatim>\<open>TypeError\<close>. The result is the sorted list or the stored object itself.
\<close>

datatype labels_result = Sorted "cell list" | Stored labels_val

definition sorted_set :: "cell list \<Rightarrow> error + cell list" where
  "sorted_set xs = sort_by_cell (\<lambda>x. x) (remdups xs)"

definition get_labels :: "obj \<Rightarrow> bool \<Rightarrow> error + labels_result" where
  "get_labels self uniq =
     (case labels self of
        None \<Rightarrow> Inl (AttributeError ''labels'')
      | Some lv \<Rightarrow>
          if uniq then
            (case lv of
               PyNone \<Rightarrow> Inr (Stored PyNone)
             | Series s \<Rightarrow> map_sum id Sorted (sorted_set (map snd s))
             | LabelArray ls \<Rightarrow> map_sum id Sorted (sorted_set ls)
             | LabelArray0 \<Rightarrow> Inl (TypeError ''iteration over a 0-d array''))
          else Inr (Stored lv))"

text \<open>\<^verbatim>\<open>return self.data[self.tidToIdx[tid]]\<close>; a DataFrame subscripted by an integer
  looks for a column of that label, and the column labels are strings.\<close>

definition get_trajectory :: "obj \<Rightarrow> cell \<Rightarrow> error + traj" where
  "get_trajectory self tid =
     (case data self of
        None \<Rightarrow> Inl (AttributeError ''data'')
      | Some dv \<Rightarrow>
          (case tid_idx self tid of
             Inl e \<Rightarrow> Inl e
           | Inr i \<Rightarrow>
               (case dv of
                  DataFrame df \<Rightarrow> Inl KeyError
                | DataArray d \<Rightarrow> (if i < length d then Inr (d ! i) else Inl IndexError))))"

text \<open>\<^verbatim>\<open>return len(self.tids)\<close>\<close>

definition length_ds :: "obj \<Rightarrow> error + nat" where
  "length_ds self = map_sum id length (getattr ''tids'' (tids self))"

section \<open>\<^verbatim>\<open>_get_label_to_idx\<close> and \<^verbatim>\<open>_update\<close> (lines 264-270, 346-357)\<close>

text \<open>
  A Python \<^verbatim>\<open>dict\<close> is an association list in insertion order; storing under a key
  that is present replaces its value in place (\<^const>\<open>AList.update\<close>), and
  \<^const>\<open>map_of\<close> reads it.
  \<^verbatim>\<open>
  def _get_label_to_idx(labels):
      labelToIdx = None
      if labels is not None:
          labelToIdx = {}
          for i, label in enumerate(labels):
              if label in labelToIdx:
                  labelToIdx[label].append(i)
              else:
                  labelToIdx[label] = [i]
      return labelToIdx
  \<close>
\<close>

definition label_step :: "nat \<times> cell \<Rightarrow> (cell \<times> nat list) list \<Rightarrow> (cell \<times> nat list) list" where
  "label_step p d =
     (case map_of d (snd p) of
        Some idxs \<Rightarrow> AList.update (snd p) (idxs @ [fst p]) d
      | None \<Rightarrow> AList.update (snd p) [fst p] d)"

definition p_get_label_to_idx :: "cell list option \<Rightarrow> (cell \<times> nat list) list option" where
  "p_get_label_to_idx lbls =
     (case lbls of
        None \<Rightarrow> None
      | Some ls \<Rightarrow> Some (fold label_step (enumerate 0 ls) []))"

text \<open>\<^verbatim>\<open>dict(zip(tids, np.r_[0:len(tids)]))\<close>\<close>

definition dict_zip :: "cell list \<Rightarrow> (cell \<times> nat) list" where
  "dict_zip ts = fold (\<lambda>p d. AList.update (fst p) (snd p) d) (zip ts [0..<length ts]) []"

text \<open>
  \<^verbatim>\<open>np.array\<close> of a list of integers and strings. When both kinds occur numpy stores
  every element as a string, an integer as its decimal text (\<^verbatim>\<open>str(i)\<close>); otherwise the
  elements are kept. Integers are taken in the 64-bit range numpy stores them in.
\<close>

fun digits :: "nat \<Rightarrow> string" where
  "digits n =
     (if n < 10 then [char_of (48 + n)] else digits (n div 10) @ [char_of (48 + n mod 10)])"

declare digits.simps [simp del]

definition py_str :: "int \<Rightarrow> string" where
  "py_str i = (if i < 0 then CHR ''-'' # digits (nat (- i)) else digits (nat i))"

definition as_str :: "cell \<Rightarrow> cell" where
  "as_str c = (case c of IntV i \<Rightarrow> StrV (py_str i) | StrV s \<Rightarrow> StrV s)"

definition np_array_cells :: "cell list \<Rightarrow> cell list" where
  "np_array_cells cs = (if list_ex is_IntV cs \<and> list_ex is_StrV cs then map as_str cs else cs)"

text \<open>\<^verbatim>\<open>np.array(labels)\<close>; \<^verbatim>\<open>np.array(None)\<close> is the zero-dimensional array.\<close>

definition np_array_labels :: "cell list option \<Rightarrow> labels_val" where
  "np_array_labels lbls =
     (case lbls of None \<Rightarrow> LabelArray0 | Some ls \<Rightarrow> LabelArray (np_array_cells ls))"

text \<open>
  \<^verbatim>\<open>np.array(data)\<close> of a list of trajectories, each a list of points, each a list of
  values. numpy (1.24 and later) builds an array only of a rectangular nesting: all
  trajectories of one length and all points of one length; of anything else it raises
  \<^verbatim>\<open>ValueError\<close> (inhomogeneous shape). Earlier versions built an array of list
  objects instead. With a \<^verbatim>\<open>None\<close> among the values the array holds objects, and the
  values are kept; so are they when all are integers or all are strings. When integers
  and strings are mixed and no value is \<^verbatim>\<open>None\<close>, what is stored depends on the element
  types of the arrays the trajectories were taken from (strings, unless one of them was
  an array of objects), which are not modelled.
\<close>

definition rectangular :: "traj list \<Rightarrow> bool" where
  "rectangular d =
     (list_all (\<lambda>t. length t = length (hd d)) d
      \<and> list_all (\<lambda>p. length p = length (hd (concat d))) (concat d))"

definition inhomogeneous :: error where
  "inhomogeneous = ValueError ''setting an array element with a sequence. The requested array has an inhomogeneous shape''"

definition mixed_values :: "traj list \<Rightarrow> bool" where
  "mixed_values d =
     (list_all (\<lambda>v. v \<noteq> None) (concat (concat d))
      \<and> list_ex (\<lambda>v. v \<noteq> None \<and> is_IntV (the v)) (concat (concat d))
      \<and> list_ex (\<lambda>v. v \<noteq> None \<and> is_StrV (the v)) (concat (concat d)))"

definition np_array_data :: "traj list \<Rightarrow> error + traj list" where
  "np_array_data d =
     (if rectangular d then (if mixed_values d then Inl Unmodelled else Inr d)
      else Inl inhomogeneous)"

text \<open>
  \<^verbatim>\<open>
  def _update(self, attributes, data, tids, labels):
      self.tids = np.array(tids)
      self.labels = np.array(labels)
      self.data = np.array(data)
      self.tidToIdx = dict(zip(tids, np.r_[0:len(tids)]))
      self.labelToIdx = TrajectoryData._get_label_to_idx(labels)
      self._stats = None
  \<close>
  The parameter \<^verbatim>\<open>attributes\<close> is not used: \<^verbatim>\<open>self.attributes\<close> is assigned nowhere
  in the class. The assignments happen in the source's order, so when
  \<^verbatim>\<open>np.array(data)\<close> raises, \<^verbatim>\<open>tids\<close> and \<^verbatim>\<open>labels\<close> have been replaced already and
  the other attributes are as they were. The dictionaries are built from the lists
  that were passed, not from the arrays.
\<close>

definition p_update ::
  "obj \<Rightarrow> string list \<Rightarrow> traj list \<Rightarrow> cell list \<Rightarrow> cell list option \<Rightarrow> (error + unit) \<times> obj" where
  "p_update self attrs d ts lbls =
     (case np_array_data d of
        Inl e \<Rightarrow>
          (Inl e, self\<lparr>tids := Some (np_array_cells ts), labels := Some (np_array_labels lbls)\<rparr>)
      | Inr arr \<Rightarrow>
          (Inr (),
           self\<lparr>tids := Some (np_array_cells ts),
                labels := Some (np_array_labels lbls),
                data := Some (DataArray arr),
                tidToIdx := Some (dict_zip ts),
                labelToIdx := Some (p_get_label_to_idx lbls),
                p_stats := Some None\<rparr>))"

section \<open>\<^verbatim>\<open>merge\<close> (lines 139-185)\<close>

text \<open>
  \<^verbatim>\<open>
  def merge(self, other, ignore_duplicates=True, inplace=True):
      if set(self.attributes) != set(other.attributes):
          raise Exception("Cannot merge datasets with different sets of " +
                          "attributes!")
      n_attributes = self.attributes
      n_tids = self.tids.tolist()
      n_labels = self.labels.tolist()
      n_data = self.data.tolist()
      for tid in other.tids:
          if tid in n_tids:
              if ignore_duplicates:
                  continue
              raise Exception("tid", tid, "already exists in 'self'!")
          n_tids.append(tid)
          n_data.append(other.get_trajectory(tid))
          if n_labels is not None:
              n_labels.append(other.get_label(tid))
      if inplace:
          self._update(n_attributes, n_data, n_tids, n_labels)
          return self
      return TrajectoryData(n_attributes, n_data, n_tids, n_labels)
  \<close>
  \<^verbatim>\<open>tolist\<close> exists on arrays and on a Series, not on \<^verbatim>\<open>None\<close> and not on a
  DataFrame; on the zero-dimensional array it returns the item, \<^verbatim>\<open>None\<close>.
  The last line passes four positional arguments to \<^verbatim>\<open>__init__(self, df, labels=None)\<close>,
  which Python refuses with \<^verbatim>\<open>TypeError\<close> before the constructor's body runs.
\<close>

definition labels_tolist :: "labels_val \<Rightarrow> error + cell list option" where
  "labels_tolist lv =
     (case lv of
        PyNone \<Rightarrow> Inl (AttributeError ''tolist'')
      | Series s \<Rightarrow> Inr (Some (map snd s))
      | LabelArray ls \<Rightarrow> Inr (Some ls)
      | LabelArray0 \<Rightarrow> Inr None)"

definition data_tolist :: "data_val \<Rightarrow> error + traj list" where
  "data_tolist dv =
     (case dv of
        DataFrame df \<Rightarrow> Inl (AttributeError ''tolist'')
      | DataArray d \<Rightarrow> Inr d)"

definition already_exists :: "cell \<Rightarrow> error" where
  "already_exists tid = Exception [Str ''tid'', Val tid, Str ''already exists in 'self'!'']"

definition cannot_merge :: error where
  "cannot_merge = Exception [Str ''Cannot merge datasets with different sets of attributes!'']"

text \<open>The loop over \<^verbatim>\<open>other.tids\<close>, on the three lists it appends to.\<close>

fun merge_loop ::
  "obj \<Rightarrow> bool \<Rightarrow> cell list \<Rightarrow> cell list \<times> traj list \<times> cell list option
     \<Rightarrow> error + cell list \<times> traj list \<times> cell list option" where
  "merge_loop other ign [] acc = Inr acc"
| "merge_loop other ign (tid # rest) (n_tids, n_data, n_labels) =
     (if tid \<in> set n_tids then
        (if ign then merge_loop other ign rest (n_tids, n_data, n_labels)
         else Inl (already_exists tid))
      else
        (case get_trajectory other tid of
           Inl e \<Rightarrow> Inl e
         | Inr t \<Rightarrow>
             (case n_labels of
                None \<Rightarrow> merge_loop other ign rest (n_tids @ [tid], n_data @ [t], None)
              | Some ls \<Rightarrow>
                  (case get_label other tid of
                     Inl e \<Rightarrow> Inl e
                   | Inr l \<Rightarrow>
                       merge_loop other ign rest (n_tids @ [tid], n_data @ [t], Some (ls @ [l]))))))"

text \<open>
  What \<^verbatim>\<open>merge\<close> builds before it commits: the attribute check, the three
  \<^verbatim>\<open>tolist\<close> calls in the source's order, and the loop.
\<close>

definition merge_build ::
  "obj \<Rightarrow> obj \<Rightarrow> bool \<Rightarrow> error + string list \<times> cell list \<times> traj list \<times> cell list option" where
  "merge_build self other ign =
     (case attributes self of
        None \<Rightarrow> Inl (AttributeError ''attributes'')
      | Some a \<Rightarrow>
     (case attributes other of
        None \<Rightarrow> Inl (AttributeError ''attributes'')
      | Some b \<Rightarrow>
     if set a \<noteq> set b then Inl cannot_merge else
     (case tids self of
        None \<Rightarrow> Inl (AttributeError ''tids'')
      | Some ts \<Rightarrow>
     (case labels self of
        None \<Rightarrow> Inl (AttributeError ''labels'')
      | Some lv \<Rightarrow>
     (case labels_tolist lv of
        Inl e \<Rightarrow> Inl e
      | Inr n_labels \<Rightarrow>
     (case data self of
        None \<Rightarrow> Inl (AttributeError ''data'')
      | Some dv \<Rightarrow>
     (case data_tolist dv of
        Inl e \<Rightarrow> Inl e
      | Inr n_data \<Rightarrow>
     (case tids other of
        None \<Rightarrow> Inl (AttributeError ''tids'')
      | Some ots \<Rightarrow>
     (case merge_loop other ign ots (ts, n_data, n_labels) of
        Inl e \<Rightarrow> Inl e
      | Inr (n_tids, n_data', n_labels') \<Rightarrow> Inr (a, n_tids, n_data', n_labels'))))))))))"

text \<open>
  The call returns a pair: what it returns or raises, and the receiver afterwards.
  A successful call with \<^verbatim>\<open>inplace\<close> returns the receiver itself (\<open>Self\<close>); an
  exception of \<^verbatim>\<open>_update\<close> leaves the receiver as \<^verbatim>\<open>_update\<close> left it.
\<close>

datatype ref = Self

definition constructor_arity :: error where
  "constructor_arity =
     TypeError ''__init__() takes from 2 to 3 positional arguments but 5 were given''"

definition merge :: "obj \<Rightarrow> obj \<Rightarrow> bool \<Rightarrow> bool \<Rightarrow> (error + ref) \<times> obj" where
  "merge self other ignore_duplicates inplace =
     (case merge_build self other ignore_duplicates of
        Inl e \<Rightarrow> (Inl e, self)
      | Inr (n_attributes, n_tids, n_data, n_labels) \<Rightarrow>
          if inplace then
            (case p_update self n_attributes n_data n_tids n_labels of
               (Inl e, self') \<Rightarrow> (Inl e, self')
             | (Inr u, self') \<Rightarrow> (Inr Self, self'))
          else (Inl constructor_arity, self))"

section \<open>\<^verbatim>\<open>stats\<close> and \<^verbatim>\<open>_print_stats\<close> (lines 202-262, 311-344)\<close>

text \<open>
  \<^verbatim>\<open>_print_stats\<close> reads the cached summary and prints it; what reaches the screen is
  not modelled, the lookups that can fail are: the label block is read whenever
  \<^verbatim>\<open>self.labels is not None\<close>.
\<close>

definition p_print_stats :: "obj \<Rightarrow> error + unit" where
  "p_print_stats self =
     (case p_stats self of
        None \<Rightarrow> Inl (AttributeError ''_stats'')
      | Some None \<Rightarrow> Inl (TypeError ''NoneType object is not subscriptable'')
      | Some (Some s) \<Rightarrow>
          (case labels self of
             None \<Rightarrow> Inl (AttributeError ''labels'')
           | Some PyNone \<Rightarrow> Inr ()
           | Some _ \<Rightarrow> (case label_block s of None \<Rightarrow> Inl KeyError | Some b \<Rightarrow> Inr ())))"

text \<open>\<^verbatim>\<open>sum([1 if x is not None else 0 for x in arr])\<close>\<close>

definition count_not_none :: "point \<Rightarrow> nat" where
  "count_not_none arr = length (filter (\<lambda>x. x \<noteq> None) arr)"

text \<open>numpy's \<^verbatim>\<open>min\<close> and \<^verbatim>\<open>max\<close> raise \<^verbatim>\<open>ValueError\<close> on an empty array.\<close>

definition zero_size :: error where
  "zero_size = ValueError ''zero-size array to reduction operation which has no identity''"

fun np_min :: "nat list \<Rightarrow> error + nat" where
  "np_min [] = Inl zero_size"
| "np_min (x # xs) = Inr (fold min xs x)"

fun np_max :: "nat list \<Rightarrow> error + nat" where
  "np_max [] = Inl zero_size"
| "np_max (x # xs) = Inr (fold max xs x)"

text \<open>The four entries \<^verbatim>\<open>min\<close>, \<^verbatim>\<open>avg\<close>, \<^verbatim>\<open>std\<close>, \<^verbatim>\<open>max\<close> of one array, in that order.\<close>

definition dist_of :: "nat list \<Rightarrow> error + dist" where
  "dist_of xs =
     (case np_min xs of
        Inl e \<Rightarrow> Inl e
      | Inr mn \<Rightarrow>
          (case np_max xs of
             Inl e \<Rightarrow> Inl e
           | Inr mx \<Rightarrow> Inr \<lparr>d_min = mn, d_avg = Mean xs, d_std = Std xs, d_max = mx\<rparr>))"

text \<open>
  \<^verbatim>\<open>unique, counts = np.unique(self.labels, return_counts=True)\<close>: the counts of the
  distinct labels in ascending order of the labels. The zero-dimensional array holds one
  item. \<open>None\<close> here is "no label block", when \<^verbatim>\<open>self.labels is None\<close>.
\<close>

definition unique_counts :: "cell list \<Rightarrow> error + nat list" where
  "unique_counts vs =
     (case sorted_set vs of
        Inl e \<Rightarrow> Inl Unmodelled
      | Inr us \<Rightarrow> Inr (map (count_list vs) us))"

definition label_counts :: "labels_val \<Rightarrow> error + nat list option" where
  "label_counts lv =
     (case lv of
        PyNone \<Rightarrow> Inr None
      | Series s \<Rightarrow> map_sum id Some (unique_counts (map snd s))
      | LabelArray ls \<Rightarrow> map_sum id Some (unique_counts ls)
      | LabelArray0 \<Rightarrow> Inr (Some [1]))"

text \<open>The end of \<^verbatim>\<open>stats\<close>: \<^verbatim>\<open>if print_stats: self._print_stats()\<close>, \<^verbatim>\<open>return self._stats\<close>.\<close>

definition stats_return :: "obj \<Rightarrow> summary \<Rightarrow> bool \<Rightarrow> (error + summary) \<times> obj" where
  "stats_return self s print_stats =
     (if print_stats then
        (case p_print_stats self of Inl e \<Rightarrow> (Inl e, self) | Inr u \<Rightarrow> (Inr s, self))
      else (Inr s, self))"

text \<open>
  The label block, added to the summary that is already stored in \<^verbatim>\<open>self._stats\<close>:
  \<^verbatim>\<open>
  if self.labels is not None:
      unique, counts = np.unique(self.labels, return_counts=True)
      self._stats['label'] = {'count': len(unique), 'min': counts.min(), ...}
  \<close>
\<close>

definition stats_labels :: "obj \<Rightarrow> summary \<Rightarrow> bool \<Rightarrow> (error + summary) \<times> obj" where
  "stats_labels self s print_stats =
     (case labels self of
        None \<Rightarrow> (Inl (AttributeError ''labels''), self)
      | Some lv \<Rightarrow>
          (case label_counts lv of
             Inl e \<Rightarrow> (Inl e, self)
           | Inr None \<Rightarrow> stats_return self s print_stats
           | Inr (Some counts) \<Rightarrow>
               (case dist_of counts of
                  Inl e \<Rightarrow> (Inl e, self)
                | Inr ld \<Rightarrow>
                    (let s' = s\<lparr>label_block := Some (length counts, ld)\<rparr>
                     in stats_return (self\<lparr>p_stats := Some (Some s')\<rparr>) s' print_stats))))"

text \<open>
  \<^verbatim>\<open>
  def stats(self, print_stats=False):
      if self._stats:
          if print_stats:
              self._print_stats()
          return self._stats
      traj_lengths = np.array([len(x) for x in self.data])
      points = np.concatenate(self.data)
      attr_count = np.array([count_not_none(p) for p in points])
      self._stats = {
          'attribute': {'count': len(self.attributes), 'min': attr_count.min(), ...},
          'point': {'count': traj_lengths.sum()},
          'trajectory': {'count': len(self.data), 'length': {'min': traj_lengths.min(), ...}}}
      ...
  \<close>
  A stored summary is a non-empty dict, hence true. \<^verbatim>\<open>np.concatenate\<close> raises
  \<^verbatim>\<open>ValueError\<close> on an empty sequence. The summary is assigned to \<^verbatim>\<open>self._stats\<close>
  before the label block is computed.
\<close>

definition stats :: "obj \<Rightarrow> bool \<Rightarrow> (error + summary) \<times> obj" where
  "stats self print_stats =
     (case p_stats self of
        None \<Rightarrow> (Inl (AttributeError ''_stats''), self)
      | Some (Some s) \<Rightarrow> stats_return self s print_stats
      | Some None \<Rightarrow>
     (case data self of
        None \<Rightarrow> (Inl (AttributeError ''data''), self)
      | Some (DataFrame df) \<Rightarrow> (Inl Unmodelled, self)
      | Some (DataArray d) \<Rightarrow>
     if d = [] then (Inl (ValueError ''need at least one array to concatenate''), self) else
     (case attributes self of
        None \<Rightarrow> (Inl (AttributeError ''attributes''), self)
      | Some a \<Rightarrow>
     (case dist_of (map count_not_none (concat d)) of
        Inl e \<Rightarrow> (Inl e, self)
      | Inr ad \<Rightarrow>
     (case dist_of (map length d) of
        Inl e \<Rightarrow> (Inl e, self)
      | Inr td \<Rightarrow>
          (let s = \<lparr>attribute_count = length a, attribute_dist = ad,
                    point_count = sum_list (map length d),
                    trajectory_count = length d, trajectory_length = td,
                    label_block = None\<rparr>
           in stats_labels (self\<lparr>p_stats := Some (Some s)\<rparr>) s print_stats))))))"

section \<open>\<^verbatim>\<open>to_file\<close> and \<^verbatim>\<open>_to_csv\<close> (lines 187-200, 272-309)\<close>

text \<open>
  \<^verbatim>\<open>
  def _to_csv(self, file, n_jobs):
      lat_lon = -1
      tids = self.get_tids()
      def build_lines(s): ...
      with open(file, 'w') as out:
          header = 'tid,label'
          for i, attr in enumerate(self.get_attributes()):
              if attr == 'lat_lon':
                  header += ',lat,lon'
                  lat_lon = i
              else:
                  header += ',' + attr
          out.write(header + '\n')
          func = delayed(build_lines)
          lines = Parallel(n_jobs=n_jobs, verbose=0)(
              func(s) for s in gen_even_slices(len(tids), n_jobs))
          lines = np.concatenate(lines)
          lines = '\n'.join(lines)
          out.write(lines)
          out.close()
  \<close>
  The module imports \<^verbatim>\<open>numpy\<close> and nothing else: \<^verbatim>\<open>delayed\<close>, \<^verbatim>\<open>Parallel\<close> and
  \<^verbatim>\<open>gen_even_slices\<close> are bound nowhere, so the statement after the header is written
  raises \<^verbatim>\<open>NameError\<close> and \<^verbatim>\<open>build_lines\<close> is never called. The call returns what
  it raises and the file: \<open>None\<close> when it was not opened, otherwise its content
  (opening for writing empties it).
\<close>

definition header_line :: "string list \<Rightarrow> string" where
  "header_line attrs =
     fold (\<lambda>attr header. if attr = ''lat_lon'' then header @ '',lat,lon''
                          else header @ '','' @ attr) attrs ''tid,label''"

definition p_to_csv :: "obj \<Rightarrow> nat \<Rightarrow> (error + unit) \<times> string option" where
  "p_to_csv self n_jobs =
     (case get_tids self None of
        Inl e \<Rightarrow> (Inl e, None)
      | Inr ts \<Rightarrow>
          (case get_attributes self of
             Inl e \<Rightarrow> (Inl e, Some [])
           | Inr attrs \<Rightarrow> (Inl (NameError ''delayed''), Some (header_line attrs @ [CHR 0x0A]))))"

text \<open>
  \<^verbatim>\<open>
  def to_file(self, file, file_type='csv', n_jobs=1):
      if file_type == 'csv':
          self._to_csv(file, n_jobs)
  \<close>
\<close>

definition to_file :: "obj \<Rightarrow> string \<Rightarrow> nat \<Rightarrow> (error + unit) \<times> string option" where
  "to_file self file_type n_jobs =
     (if file_type = ''csv'' then p_to_csv self n_jobs else (Inr (), None))"

section \<open>\<^verbatim>\<open>CSVTrajectoryLoader.load\<close> (loader.py, lines 54-84)\<close>

text \<open>
  The loader's configuration; \<^verbatim>\<open>file\<close> and \<^verbatim>\<open>sep\<close> tell \<^verbatim>\<open>pd.read_csv\<close> how to parse,
  and the parsed table is the model's input. \<open>label_col = None\<close> is \<^verbatim>\<open>label_col=None\<close>.
\<close>

record CSVTrajectoryLoader =
  tid_col :: string
  label_col :: "string option"
  lat :: string
  lon :: string
  drop_col :: "string list"

text \<open>\<^verbatim>\<open>usecols=lambda c: ...\<close> and \<^verbatim>\<open>df.drop(columns=c)\<close>: the columns kept, in every row.\<close>

definition usecols :: "(string \<Rightarrow> bool) \<Rightarrow> frame \<Rightarrow> frame" where
  "usecols keep df =
     \<lparr>columns = filter keep (columns df),
      rows = map (\<lambda>r. map snd (filter (\<lambda>p. keep (fst p)) (zip (columns df) r))) (rows df)\<rparr>"

text \<open>\<^verbatim>\<open>df.rename(columns={...})\<close>; a label that is no key of the dict stays.\<close>

definition rename :: "(string \<times> string) list \<Rightarrow> frame \<Rightarrow> frame" where
  "rename m df = df\<lparr>columns := map (\<lambda>c. case map_of m c of None \<Rightarrow> c | Some c' \<Rightarrow> c') (columns df)\<rparr>"

text \<open>The dict literal \<^verbatim>\<open>{self.tid_col: 'tid', self.lat: 'lat', self.lon: 'lon'}\<close>.\<close>

definition rename_dict :: "CSVTrajectoryLoader \<Rightarrow> (string \<times> string) list" where
  "rename_dict ld =
     fold (\<lambda>p d. AList.update (fst p) (snd p) d)
       [(tid_col ld, ''tid''), (lat ld, ''lat''), (lon ld, ''lon'')] []"

text \<open>
  \<^verbatim>\<open>df.set_index('tid', drop=False)[c]\<close>: the column \<open>c\<close> as a Series indexed by the
  \<^verbatim>\<open>tid\<close> column. Either label missing is \<^verbatim>\<open>KeyError\<close>.
\<close>

definition indexed_column :: "frame \<Rightarrow> string \<Rightarrow> error + series" where
  "indexed_column df c =
     (if ''tid'' \<notin> set (columns df) then Inl KeyError
      else if count_list (columns df) ''tid'' \<noteq> 1 then Inl Unmodelled
      else if c \<notin> set (columns df) then Inl KeyError
      else if count_list (columns df) c \<noteq> 1 then Inl Unmodelled
      else Inr (zip (column df ''tid'') (column df c)))"

text \<open>
  \<^verbatim>\<open>
  def load(self):
      df = pd.read_csv(self.file, sep=self.sep, usecols=lambda c: c not in self.drop_col)
      df = df.rename(columns={self.tid_col: 'tid', self.lat: 'lat', self.lon: 'lon'})
      if self.label_col is None:
          return TrajectoryData(df, labels=None)
      real_label_col = self.label_col
      if self.label_col == self.tid_col:
          real_label_col = 'tid'
      labels = df.set_index('tid', drop=False)[real_label_col].drop_duplicates()
      if real_label_col != 'tid':
          df = df.drop(columns=real_label_col)
      return TrajectoryData(df, labels)
  \<close>
\<close>

definition load :: "CSVTrajectoryLoader \<Rightarrow> frame \<Rightarrow> error + obj" where
  "load ld csv =
     (let df = rename (rename_dict ld) (usecols (\<lambda>c. c \<notin> set (drop_col ld)) csv) in
      case label_col ld of
        None \<Rightarrow> TrajectoryData df None
      | Some lc \<Rightarrow>
          (let real_label_col = (if lc = tid_col ld then ''tid'' else lc) in
           case indexed_column df real_label_col of
             Inl e \<Rightarrow> Inl e
           | Inr s \<Rightarrow>
               TrajectoryData
                 (if real_label_col \<noteq> ''tid'' then usecols (\<lambda>c. c \<noteq> real_label_col) df else df)
                 (Some (drop_duplicates s))))"

section \<open>Notions the statements use\<close>

text \<open>
  Python's \<^verbatim>\<open><=\<close> on cells, where it is defined, and a list in ascending order
  under it.
\<close>

fun cell_le :: "cell \<Rightarrow> cell \<Rightarrow> bool" where
  "cell_le (IntV i) (IntV j) = (i \<le> j)"
| "cell_le (StrV a) (StrV b) = (a \<le> b)"
| "cell_le (IntV i) (StrV b) = False"
| "cell_le (StrV a) (IntV j) = False"

definition ascending :: "cell list \<Rightarrow> bool" where
  "ascending cs = sorted_wrt cell_le cs"

text \<open>Cells that Python can order among themselves: integers only, or strings only.\<close>

definition comparable :: "cell list \<Rightarrow> bool" where
  "comparable cs = (list_all is_IntV cs \<or> list_all is_StrV cs)"

text \<open>
  The tids of the other dataset that the receiver does not have, each once, in the
  other's order.
\<close>

definition new_tids :: "cell list \<Rightarrow> cell list \<Rightarrow> cell list" where
  "new_tids ts ots = unique (filter (\<lambda>t. t \<notin> set ts) ots)"

section \<open>Concrete inputs\<close>

text \<open>
  The scenario of the specification: a table with tids 2 and 1 (in that order), two
  points each, one attribute \<^verbatim>\<open>poi\<close>, and the labels \<^verbatim>\<open>{1: 'a', 2: 'b'}\<close>;
  \<open>scenario_obj\<close> is the object the constructor builds from them.
\<close>

definition scenario_df :: frame where
  "scenario_df = \<lparr>columns = [''tid'', ''poi''],
     rows = [[IntV 2, StrV ''home''], [IntV 2, StrV ''work''],
             [IntV 1, StrV ''park''], [IntV 1, StrV ''shop'']]\<rparr>"

definition scenario_labels :: series where
  "scenario_labels = [(IntV 1, StrV ''a''), (IntV 2, StrV ''b'')]"

definition scenario_obj :: obj where
  "scenario_obj = new_obj\<lparr>
     data := Some (DataFrame \<lparr>columns = [''tid'', ''poi''],
       rows = [[IntV 1, StrV ''park''], [IntV 1, StrV ''shop''],
               [IntV 2, StrV ''home''], [IntV 2, StrV ''work'']]\<rparr>),
     labels := Some (Series [(IntV 1, StrV ''a''), (IntV 2, StrV ''b'')])\<rparr>"

text \<open>A second table, sharing tid 2 with the scenario, and the object built from it.\<close>

definition other_df :: frame where
  "other_df = \<lparr>columns = [''tid'', ''poi''],
     rows = [[IntV 3, StrV ''gym''], [IntV 2, StrV ''bar'']]\<rparr>"

definition other_labels :: series where
  "other_labels = [(IntV 2, StrV ''b''), (IntV 3, StrV ''c'')]"

definition other_obj :: obj where
  "other_obj = new_obj\<lparr>
     data := Some (DataFrame \<lparr>columns = [''tid'', ''poi''],
       rows = [[IntV 2, StrV ''bar''], [IntV 3, StrV ''gym'']]\<rparr>),
     labels := Some (Series [(IntV 2, StrV ''b''), (IntV 3, StrV ''c'')])\<rparr>"

text \<open>
  An object in the representation that the getters, \<^verbatim>\<open>merge\<close>, \<^verbatim>\<open>stats\<close> and
  \<^verbatim>\<open>_to_csv\<close> read: the attributes as \<^verbatim>\<open>_update\<close> assigns them, and
  \<^verbatim>\<open>attributes\<close>, which no method of the class assigns, assigned from outside. No
  sequence of calls of the class's own methods reaches such an object from a constructed
  one.
\<close>

definition populated :: "string list \<Rightarrow> traj list \<Rightarrow> cell list \<Rightarrow> cell list option \<Rightarrow> obj" where
  "populated attrs d ts lbls =
     snd (p_update (new_obj\<lparr>attributes := Some attrs\<rparr>) attrs d ts lbls)"

definition store_a :: obj where
  "store_a = populated [''poi'']
     [[[Some (StrV ''home'')], [None]], [[Some (StrV ''gym'')], [Some (StrV ''bar'')]]]
     [IntV 2, IntV 3] (Some [StrV ''b'', StrV ''c''])"

definition store_b :: obj where
  "store_b = populated [''poi'']
     [[[Some (StrV ''park'')], [Some (StrV ''shop'')]], [[Some (StrV ''pool'')], [None]]]
     [IntV 1, IntV 3] (Some [StrV ''a'', StrV ''c''])"

text \<open>The loader with the defaults of its \<^verbatim>\<open>__init__\<close>, and a file in which the
  trajectories 1 and 2 carry the same label.\<close>

definition default_loader :: CSVTrajectoryLoader where
  "default_loader =
     \<lparr>tid_col = ''tid'', label_col = Some ''label'', lat = ''lat'', lon = ''lon'', drop_col = []\<rparr>"

definition shared_label_csv :: frame where
  "shared_label_csv = \<lparr>columns = [''tid'', ''label'', ''poi''],
     rows = [[IntV 1, StrV ''a'', StrV ''park''], [IntV 2, StrV ''a'', StrV ''home'']]\<rparr>"

text \<open>A table with the single tid 1, and labels that give tid 1 twice.\<close>

definition dup_df :: frame where
  "dup_df = \<lparr>columns = [''tid'', ''poi''], rows = [[IntV 1, StrV ''park'']]\<rparr>"

definition dup_labels :: series where
  "dup_labels = [(IntV 1, StrV ''a''), (IntV 1, StrV ''b'')]"



section \<open>What the constructor leaves unassigned\<close>

lemma scenario_constructed:
  "TrajectoryData scenario_df (Some scenario_labels) = Inr scenario_obj"
  by (simp add: TrajectoryData_def scenario_df_def scenario_labels_def scenario_obj_def
      sort_values_def sort_by_cell_def sort_index_def column_def array_equal_def)

text \<open>
  Every object that \<^verbatim>\<open>__init__\<close> returns has \<^verbatim>\<open>data\<close> and \<^verbatim>\<open>labels\<close> and no other
  attribute.
\<close>

lemma constructed_slots:
  assumes "TrajectoryData df lbls = Inr ob"
  shows "tids ob = None" "attributes ob = None" "tidToIdx ob = None"
    "labelToIdx ob = None" "p_stats ob = None"
  using assms
  by (auto simp: TrajectoryData_def new_obj_def split: if_splits sum.splits option.splits)

lemma constructed_length:
  "TrajectoryData df lbls = Inr ob \<Longrightarrow> length_ds ob = Inl (AttributeError ''tids'')"
  by (simp add: length_ds_def getattr_def constructed_slots)

lemma TrajectoryData_None: "isl (TrajectoryData df None)"
  by (simp add: TrajectoryData_def split: sum.splits)

lemma other_constructed: "TrajectoryData other_df (Some other_labels) = Inr other_obj"
  by (simp add: TrajectoryData_def other_df_def other_labels_def other_obj_def
      sort_values_def sort_by_cell_def sort_index_def column_def array_equal_def)

section \<open>General facts about \<^verbatim>\<open>merge\<close> and \<^verbatim>\<open>_to_csv\<close>\<close>

text \<open>Whatever the two objects, a merge that is not in place returns nothing.\<close>

lemma merge_not_inplace: "isl (fst (merge self other ign False))"
  by (simp add: merge_def split: sum.splits prod.splits)

text \<open>
  A merge that is not in place leaves the receiver as it was, and so does a merge that
  raises before it calls \<^verbatim>\<open>_update\<close>.
\<close>

lemma merge_not_inplace_keeps_receiver: "snd (merge self other ign False) = self"
  by (simp add: merge_def split: sum.splits prod.splits)

lemma merge_build_error_keeps_receiver:
  "merge_build self other ign = Inl e \<Longrightarrow> merge self other ign inpl = (Inl e, self)"
  by (simp add: merge_def)

lemma scenario_merge:
  "merge scenario_obj other ign inpl = (Inl (AttributeError ''attributes''), scenario_obj)"
  by (simp add: merge_def merge_build_def scenario_obj_def new_obj_def)

text \<open>No constructed dataset can be merged, as the receiver or as the other.\<close>

lemma constructed_never_merges:
  assumes "TrajectoryData df lbls = Inr ob"
  shows "merge ob other ign inpl = (Inl (AttributeError ''attributes''), ob)"
    and "merge self ob ign inpl = (Inl (AttributeError ''attributes''), self)"
  using constructed_slots(2) [OF assms]
  by (simp_all add: merge_def merge_build_def split: option.splits)

lemma store_a_simps:
  "store_a = \<lparr>data = Some (DataArray
        [[[Some (StrV ''home'')], [None]], [[Some (StrV ''gym'')], [Some (StrV ''bar'')]]]),
      labels = Some (LabelArray [StrV ''b'', StrV ''c'']), tids = Some [IntV 2, IntV 3],
      attributes = Some [''poi''], tidToIdx = Some [(IntV 2, 0), (IntV 3, 1)],
      labelToIdx = Some (Some [(StrV ''b'', [0]), (StrV ''c'', [1])]), p_stats = Some None\<rparr>"
  by (simp add: store_a_def populated_def p_update_def new_obj_def np_array_labels_def dict_zip_def
      np_array_cells_def np_array_data_def rectangular_def mixed_values_def
      p_get_label_to_idx_def label_step_def upt_rec enumerate_eq_zip)

lemma store_b_simps:
  "store_b = \<lparr>data = Some (DataArray
        [[[Some (StrV ''park'')], [Some (StrV ''shop'')]], [[Some (StrV ''pool'')], [None]]]),
      labels = Some (LabelArray [StrV ''a'', StrV ''c'']), tids = Some [IntV 1, IntV 3],
      attributes = Some [''poi''], tidToIdx = Some [(IntV 1, 0), (IntV 3, 1)],
      labelToIdx = Some (Some [(StrV ''a'', [0]), (StrV ''c'', [1])]), p_stats = Some None\<rparr>"
  by (simp add: store_b_def populated_def p_update_def new_obj_def np_array_labels_def dict_zip_def
      np_array_cells_def np_array_data_def rectangular_def mixed_values_def
      p_get_label_to_idx_def label_step_def upt_rec enumerate_eq_zip)

lemma store_merge_build:
  "merge_build store_a store_b True =
     Inr ([''poi''], [IntV 2, IntV 3, IntV 1],
          [[[Some (StrV ''home'')], [None]], [[Some (StrV ''gym'')], [Some (StrV ''bar'')]],
           [[Some (StrV ''park'')], [Some (StrV ''shop'')]]],
          Some [StrV ''b'', StrV ''c'', StrV ''a''])"
  by (simp add: merge_build_def store_a_simps store_b_simps labels_tolist_def data_tolist_def
      get_trajectory_def get_label_def tid_idx_def)

lemma store_merge_dup:
  "merge_build store_a store_b False = Inl (already_exists (IntV 3))"
  by (simp add: merge_build_def store_a_simps store_b_simps labels_tolist_def data_tolist_def
      get_trajectory_def get_label_def tid_idx_def)

text \<open>
  \<^verbatim>\<open>merge\<close> appends and \<^verbatim>\<open>_update\<close> stores the lists as they are: merging in place
  the tids 1, 3 into a receiver holding 2, 3 leaves 2, 3, 1.
\<close>

lemma store_merge_inplace:
  "merge store_a store_b True True =
     (Inr Self,
      store_a\<lparr>tids := Some [IntV 2, IntV 3, IntV 1],
        labels := Some (LabelArray [StrV ''b'', StrV ''c'', StrV ''a'']),
        data := Some (DataArray
          [[[Some (StrV ''home'')], [None]], [[Some (StrV ''gym'')], [Some (StrV ''bar'')]],
           [[Some (StrV ''park'')], [Some (StrV ''shop'')]]]),
        tidToIdx := Some [(IntV 2, 0), (IntV 3, 1), (IntV 1, 2)],
        labelToIdx := Some (Some [(StrV ''b'', [0]), (StrV ''c'', [1]), (StrV ''a'', [2])]),
        p_stats := Some None\<rparr>)"
  by (simp add: merge_def store_merge_build p_update_def np_array_labels_def dict_zip_def
      np_array_cells_def np_array_data_def rectangular_def mixed_values_def
      p_get_label_to_idx_def label_step_def upt_rec enumerate_eq_zip)

text \<open>
  \<^verbatim>\<open>_update\<close> with trajectories of different lengths raises after it has replaced
  \<^verbatim>\<open>tids\<close> and \<^verbatim>\<open>labels\<close>.
\<close>

lemma ragged_update_raises:
  "p_update store_a [''poi''] [[[None]], [[None], [None]]] [IntV 7] None
     = (Inl inhomogeneous, store_a\<lparr>tids := Some [IntV 7], labels := Some LabelArray0\<rparr>)"
  by (simp add: p_update_def np_array_data_def rectangular_def np_array_cells_def
      np_array_labels_def)

text \<open>Whatever the object, \<^verbatim>\<open>_to_csv\<close> raises.\<close>

lemma to_csv_never_returns: "isl (fst (p_to_csv self n))"
  by (simp add: p_to_csv_def split: sum.splits)

section \<open>Sorting and the constructor\<close>

lemma set_unique [simp]: "set (unique xs) = set xs"
  by (induction xs rule: unique.induct) auto

lemma distinct_unique [simp]: "distinct (unique xs)"
  by (induction xs rule: unique.induct) auto

lemma sorted_wrt_unique: "sorted_wrt P xs \<Longrightarrow> sorted_wrt P (unique xs)"
proof (induction xs rule: unique.induct)
  case 1
  then show ?case by simp
next
  case (2 x xs)
  from "2.prems" have "sorted_wrt P (filter (\<lambda>y. y \<noteq> x) xs)"
    by (simp add: sorted_wrt_filter)
  with "2.IH" have "sorted_wrt P (unique (filter (\<lambda>y. y \<noteq> x) xs))" by simp
  with "2.prems" show ?case by auto
qed

lemma unique_eq_sorted_iff:
  fixes g :: "'a \<Rightarrow> 'b::linorder"
  assumes inj: "inj_on g (set T \<union> set K)"
    and T: "mset T' = mset T" "sorted (map g T')"
    and K: "mset K' = mset K" "sorted (map g K')"
  shows "unique T' = K' \<longleftrightarrow> distinct K \<and> set K = set T"
proof
  assume eq: "unique T' = K'"
  then have "distinct K'" using distinct_unique [of T'] by simp
  then have "distinct K" using K(1) by (metis mset_eq_imp_distinct_iff)
  moreover have "set K = set T"
    using eq K(1) T(1) set_unique [of T'] by (metis mset_eq_setD)
  ultimately show "distinct K \<and> set K = set T" by simp
next
  assume a: "distinct K \<and> set K = set T"
  have sT: "set T' = set T" and sK: "set K' = set K"
    using T(1) K(1) by (auto dest: mset_eq_setD)
  have dK: "distinct K'" using a K(1) by (metis mset_eq_imp_distinct_iff)
  have injU: "inj_on g (set (unique T'))" and injK: "inj_on g (set K')"
    using inj sT sK by (auto intro: inj_on_subset)
  have "sorted (map g (unique T'))"
    using T(2) sorted_wrt_unique [of "\<lambda>x y. g x \<le> g y" T'] by (simp add: sorted_map)
  moreover have "distinct (map g (unique T'))"
    using injU by (simp add: distinct_map)
  moreover have "distinct (map g K')"
    using injK dK by (simp add: distinct_map)
  moreover have "set (map g (unique T')) = set (map g K')"
    using a sT sK by simp
  ultimately have "map g (unique T') = map g K'"
    using K(2) by (metis sorted_distinct_set_unique)
  moreover have "inj_on g (set (unique T') \<union> set K')"
    using inj sT sK by simp
  ultimately show "unique T' = K'"
    by (metis inj_on_map_eq_map)
qed

lemma inj_on_the_int: "\<forall>c\<in>A. is_IntV c \<Longrightarrow> inj_on the_int A"
  by (auto simp: inj_on_def) (metis cell.collapse(1))

lemma inj_on_the_str: "\<forall>c\<in>A. is_StrV c \<Longrightarrow> inj_on the_str A"
  by (auto simp: inj_on_def) (metis cell.collapse(2))


lemma sort_by_cell_int:
  "list_all is_IntV (map k xs) \<Longrightarrow> sort_by_cell k xs = Inr (sort_key (\<lambda>x. the_int (k x)) xs)"
  by (simp add: sort_by_cell_def list.pred_map comp_def)

lemma sort_by_cell_str:
  "\<not> list_all is_IntV (map k xs) \<Longrightarrow> list_all is_StrV (map k xs)
   \<Longrightarrow> sort_by_cell k xs = Inr (sort_key (\<lambda>x. the_str (k x)) xs)"
  by (simp add: sort_by_cell_def list.pred_map comp_def)

lemma sort_by_cell_Inr:
  assumes "sort_by_cell k xs = Inr ys"
  shows "mset ys = mset xs"
  using assms by (auto simp: sort_by_cell_def split: if_splits)

lemma sort_by_cell_comparable:
  "comparable (map k xs) \<Longrightarrow> \<exists>ys. sort_by_cell k xs = Inr ys"
  unfolding comparable_def using sort_by_cell_int sort_by_cell_str by blast

lemma sorted_keys_int: "sorted (map the_int (map k (sort_key (\<lambda>x. the_int (k x)) xs)))"
  using sorted_sort_key [of "\<lambda>x. the_int (k x)" xs] by (simp add: comp_def)

lemma sorted_keys_str: "sorted (map the_str (map k (sort_key (\<lambda>x. the_str (k x)) xs)))"
  using sorted_sort_key [of "\<lambda>x. the_str (k x)" xs] by (simp add: comp_def)

lemma keys_equal_iff:
  assumes cT: "comparable (map k xs)" and cK: "comparable (map h zs)"
    and T: "sort_by_cell k xs = Inr xs'" and K: "sort_by_cell h zs = Inr zs'"
  shows "unique (map k xs') = map h zs'
         \<longleftrightarrow> distinct (map h zs) \<and> set (map h zs) = set (map k xs)"
proof -
  have mT: "mset (map k xs') = mset (map k xs)" and mK: "mset (map h zs') = mset (map h zs)"
    using sort_by_cell_Inr [OF T] sort_by_cell_Inr [OF K] by (metis mset_map)+
  have sT: "set (map k xs') = set (map k xs)" and sK: "set (map h zs') = set (map h zs)"
    using mT mK by (metis mset_eq_setD)+
  have cross: ?thesis if "set (map h zs) \<noteq> set (map k xs)"
    using that sT sK set_unique [of "map k xs'"] by metis
  show ?thesis
  proof (cases "list_all is_IntV (map k xs)")
    case Ti: True
    show ?thesis
    proof (cases "list_all is_IntV (map h zs)")
      case True
      have "inj_on the_int (set (map k xs) \<union> set (map h zs))"
        using Ti True by (intro inj_on_the_int) (auto simp: list_all_iff)
      moreover have "sorted (map the_int (map k xs'))"
        using T sort_by_cell_int [OF Ti] sorted_keys_int [of k xs] by simp
      moreover have "sorted (map the_int (map h zs'))"
        using K sort_by_cell_int [OF True] sorted_keys_int [of h zs] by simp
      ultimately show ?thesis
        using unique_eq_sorted_iff [of the_int "map k xs" "map h zs" "map k xs'" "map h zs'"] mT mK
        by simp
    next
      case False
      then obtain x where "x \<in> set (map h zs)" "\<not> is_IntV x" by (auto simp: list_all_iff)
      moreover have "\<forall>y\<in>set (map k xs). is_IntV y" using Ti by (simp add: list_all_iff)
      ultimately have "set (map h zs) \<noteq> set (map k xs)" by blast
      then show ?thesis by (rule cross)
    qed
  next
    case Tn: False
    then have Ts: "list_all is_StrV (map k xs)" using cT by (simp add: comparable_def)
    show ?thesis
    proof (cases "list_all is_IntV (map h zs)")
      case True
      from Tn obtain x where "x \<in> set (map k xs)" "\<not> is_IntV x" by (auto simp: list_all_iff)
      moreover have "\<forall>y\<in>set (map h zs). is_IntV y" using True by (simp add: list_all_iff)
      ultimately have "set (map h zs) \<noteq> set (map k xs)" by blast
      then show ?thesis by (rule cross)
    next
      case False
      then have Ks: "list_all is_StrV (map h zs)" using cK by (simp add: comparable_def)
      have "inj_on the_str (set (map k xs) \<union> set (map h zs))"
        using Ts Ks by (intro inj_on_the_str) (auto simp: list_all_iff)
      moreover have "sorted (map the_str (map k xs'))"
        using T sort_by_cell_str [OF Tn Ts] sorted_keys_str [of k xs] by simp
      moreover have "sorted (map the_str (map h zs'))"
        using K sort_by_cell_str [OF False Ks] sorted_keys_str [of h zs] by simp
      ultimately show ?thesis
        using unique_eq_sorted_iff [of the_str "map k xs" "map h zs" "map k xs'" "map h zs'"] mT mK
        by simp
    qed
  qed
qed


lemma tid_present: "count_list (columns df) ''tid'' = 1 \<Longrightarrow> ''tid'' \<in> set (columns df)"
  by (metis count_list_0_iff zero_neq_one)

lemma labelled_construction:
  assumes c1: "count_list (columns df) ''tid'' = 1"
    and cT: "comparable (column df ''tid'')" and cK: "comparable (map fst s)"
  shows "TrajectoryData df (Some s) = Inl (ValueError labels_mismatch)
           \<longleftrightarrow> \<not> (distinct (map fst s) \<and> set (map fst s) = set (column df ''tid''))"
    and "(\<exists>ob. TrajectoryData df (Some s) = Inr ob)
           \<longleftrightarrow> distinct (map fst s) \<and> set (map fst s) = set (column df ''tid'')"
proof -
  define k where "k = (\<lambda>r::cell list. r ! col_pos ''tid'' (columns df))"
  have col: "column df ''tid'' = map k (rows df)" by (simp add: column_def k_def)
  from cT obtain rs where rs: "sort_by_cell k (rows df) = Inr rs"
    using sort_by_cell_comparable [of k "rows df"] col by auto
  from cK obtain s' where s': "sort_by_cell fst s = Inr s'"
    using sort_by_cell_comparable [of fst s] by auto
  have sv: "sort_values df ''tid'' = Inr (df\<lparr>rows := rs\<rparr>)"
    using c1 tid_present [OF c1] rs by (simp add: sort_values_def k_def)
  have col': "column (df\<lparr>rows := rs\<rparr>) ''tid'' = map k rs" by (simp add: column_def k_def)
  have iff: "unique (map k rs) = map fst s'
        \<longleftrightarrow> distinct (map fst s) \<and> set (map fst s) = set (map k (rows df))"
    using keys_equal_iff [OF _ cK rs s'] cT col by simp
  have res: "TrajectoryData df (Some s) =
      (if unique (map k rs) = map fst s'
       then Inr (new_obj\<lparr>data := Some (DataFrame (df\<lparr>rows := rs\<rparr>)), labels := Some (Series s')\<rparr>)
       else Inl (ValueError labels_mismatch))"
    using tid_present [OF c1] sv s'
    by (simp add: TrajectoryData_def sort_index_def col' array_equal_def)
  show "TrajectoryData df (Some s) = Inl (ValueError labels_mismatch)
           \<longleftrightarrow> \<not> (distinct (map fst s) \<and> set (map fst s) = set (column df ''tid''))"
    using res iff col by auto
  show "(\<exists>ob. TrajectoryData df (Some s) = Inr ob)
           \<longleftrightarrow> distinct (map fst s) \<and> set (map fst s) = set (column df ''tid'')"
    using res iff col by auto
qed

lemma schema_error_iff:
  "TrajectoryData df lbls = Inl (ValueError no_tid_column) \<longleftrightarrow> ''tid'' \<notin> set (columns df)"
  by (auto simp: TrajectoryData_def sort_values_def sort_by_cell_def sort_index_def
      no_tid_column_def labels_mismatch_def split: sum.splits option.splits if_splits)

lemma cell_le_int: "is_IntV a \<Longrightarrow> is_IntV b \<Longrightarrow> cell_le a b = (the_int a \<le> the_int b)"
  by (cases a; cases b) simp_all

lemma cell_le_str: "is_StrV a \<Longrightarrow> is_StrV b \<Longrightarrow> cell_le a b = (the_str a \<le> the_str b)"
  by (cases a; cases b) simp_all

lemma sort_by_cell_ascending:
  assumes "sort_by_cell k xs = Inr ys"
  shows "ascending (map k ys)"
proof (cases "list_all is_IntV (map k xs)")
  case True
  then have ys: "ys = sort_key (\<lambda>x. the_int (k x)) xs"
    using assms sort_by_cell_int [OF True] by simp
  have all: "\<forall>c\<in>set (map k ys). is_IntV c"
    using True ys by (simp add: list_all_iff)
  have "sorted_wrt (\<lambda>a b. the_int a \<le> the_int b) (map k ys)"
    using sorted_keys_int [of k xs] ys by (simp add: sorted_map sorted_wrt_map)
  then show ?thesis
    unfolding ascending_def
    by (rule sorted_wrt_mono_rel [rotated]) (use all in \<open>auto simp: cell_le_int\<close>)
next
  case False
  then have str: "list_all is_StrV (map k xs)"
    using assms by (auto simp: sort_by_cell_def list.pred_map comp_def split: if_splits)
  then have ys: "ys = sort_key (\<lambda>x. the_str (k x)) xs"
    using assms sort_by_cell_str [OF False str] by simp
  have all: "\<forall>c\<in>set (map k ys). is_StrV c"
    using str ys by (simp add: list_all_iff)
  have "sorted_wrt (\<lambda>a b. the_str a \<le> the_str b) (map k ys)"
    using sorted_keys_str [of k xs] ys by (simp add: sorted_map sorted_wrt_map)
  then show ?thesis
    unfolding ascending_def
    by (rule sorted_wrt_mono_rel [rotated]) (use all in \<open>auto simp: cell_le_str\<close>)
qed

lemma constructed_sorted:
  assumes "TrajectoryData df (Some s) = Inr ob"
  shows "\<exists>df' s'. data ob = Some (DataFrame df') \<and> labels ob = Some (Series s')
           \<and> columns df' = columns df \<and> mset (rows df') = mset (rows df) \<and> mset s' = mset s
           \<and> ascending (column df' ''tid'')
           \<and> map fst s' = unique (column df' ''tid'')
           \<and> ascending (map fst s')"
proof -
  define k where "k = (\<lambda>r::cell list. r ! col_pos ''tid'' (columns df))"
  from assms obtain rs s' where rs: "sort_by_cell k (rows df) = Inr rs"
    and s': "sort_by_cell fst s = Inr s'"
    and eq: "unique (column (df\<lparr>rows := rs\<rparr>) ''tid'') = map fst s'"
    and ob: "ob = new_obj\<lparr>data := Some (DataFrame (df\<lparr>rows := rs\<rparr>)), labels := Some (Series s')\<rparr>"
    by (auto simp: TrajectoryData_def sort_values_def sort_index_def array_equal_def k_def
        split: if_splits sum.splits)
  have col: "column (df\<lparr>rows := rs\<rparr>) ''tid'' = map k rs" by (simp add: column_def k_def)
  have "ascending (map k rs)" using sort_by_cell_ascending [OF rs] .
  moreover have "ascending (map fst s')" using sort_by_cell_ascending [OF s'] .
  ultimately show ?thesis
    using ob eq col sort_by_cell_Inr [OF rs] sort_by_cell_Inr [OF s']
    by (intro exI [of _ "df\<lparr>rows := rs\<rparr>"] exI [of _ s']) (simp add: new_obj_def)
qed



section \<open>Merging into an unlabeled receiver\<close>

text \<open>
  With \<^verbatim>\<open>n_labels\<close> being \<^verbatim>\<open>None\<close> the loop reads no label. When duplicates are
  ignored, or there are none, it appends the other's new tids in the other's order, each
  with the other's trajectory for it.
\<close>

lemma unique_distinct: "distinct xs \<Longrightarrow> unique xs = xs"
proof (induction xs)
  case Nil
  then show ?case by simp
next
  case (Cons a xs)
  then have "filter (\<lambda>y. y \<noteq> a) xs = xs" by (auto simp: filter_id_conv)
  with Cons show ?case by simp
qed

lemma new_tids_fresh:
  "distinct ots \<Longrightarrow> set ts \<inter> set ots = {} \<Longrightarrow> new_tids ts ots = ots"
proof -
  assume d: "distinct ots" and i: "set ts \<inter> set ots = {}"
  from i have "filter (\<lambda>t. t \<notin> set ts) ots = ots" by (auto simp: filter_id_conv)
  with d show ?thesis by (simp add: new_tids_def unique_distinct)
qed


text \<open>A receiver whose \<^verbatim>\<open>labels\<close> attribute is \<^verbatim>\<open>None\<close> itself cannot be merged into.\<close>

lemma none_labels_merge_raises:
  "labels self = Some PyNone \<Longrightarrow> isl (fst (merge self other ign inpl))"
  by (auto simp: merge_def merge_build_def labels_tolist_def split: option.splits)



section \<open>The claims\<close>

text \<open>
  C1. The specification says that after a valid construction \<^verbatim>\<open>length()\<close> is the number
  of distinct tids, and that in the scenario \<^verbatim>\<open>get_tids()\<close> is \<^verbatim>\<open>[1, 2]\<close>,
  \<^verbatim>\<open>get_label(1)\<close> is \<^verbatim>\<open>'a'\<close> and \<^verbatim>\<open>get_labels(unique=True)\<close> is \<^verbatim>\<open>['a', 'b']\<close>.
  On the code, the construction of the scenario succeeds, and then \<^verbatim>\<open>length()\<close> and
  \<^verbatim>\<open>get_tids()\<close> raise \<^verbatim>\<open>AttributeError\<close> (\<^verbatim>\<open>self.tids\<close> was never assigned),
  \<^verbatim>\<open>get_label(1)\<close> raises \<^verbatim>\<open>AttributeError\<close> (\<^verbatim>\<open>self.tidToIdx\<close>), and only
  \<^verbatim>\<open>get_labels(unique=True)\<close> returns what the specification says.
\<close>

theorem C1_scenario_getters_raise:
  "TrajectoryData scenario_df (Some scenario_labels) = Inr scenario_obj
   \<and> length_ds scenario_obj = Inl (AttributeError ''tids'')
   \<and> get_tids scenario_obj None = Inl (AttributeError ''tids'')
   \<and> get_label scenario_obj (IntV 1) = Inl (AttributeError ''tidToIdx'')
   \<and> get_labels scenario_obj True = Inr (Sorted [StrV ''a'', StrV ''b''])"
proof -
  have "length_ds scenario_obj = Inl (AttributeError ''tids'')"
    by (simp add: length_ds_def getattr_def scenario_obj_def new_obj_def)
  moreover have "get_tids scenario_obj None = Inl (AttributeError ''tids'')"
    by (simp add: get_tids_def getattr_def scenario_obj_def new_obj_def)
  moreover have "get_label scenario_obj (IntV 1) = Inl (AttributeError ''tidToIdx'')"
    by (simp add: get_label_def tid_idx_def scenario_obj_def new_obj_def)
  moreover have "get_labels scenario_obj True = Inr (Sorted [StrV ''a'', StrV ''b''])"
    by (simp add: get_labels_def sorted_set_def sort_by_cell_def scenario_obj_def new_obj_def)
  ultimately show ?thesis using scenario_constructed by simp
qed

text \<open>
  C2. The specification says that loading with no label column succeeds and gives an
  unlabeled dataset. On the code, \<^verbatim>\<open>load\<close> with \<^verbatim>\<open>label_col=None\<close> calls
  \<^verbatim>\<open>TrajectoryData(df, labels=None)\<close>, whose line 19 calls \<^verbatim>\<open>sort_index\<close> on
  \<^verbatim>\<open>None\<close>: whatever the table, the call raises; for the scenario's table it is
  \<^verbatim>\<open>AttributeError\<close>.
\<close>

theorem C2_load_without_labels_raises:
  "isl (load (ld\<lparr>label_col := None\<rparr>) csv)
   \<and> load \<lparr>tid_col = ''tid'', label_col = None, lat = ''lat'', lon = ''lon'', drop_col = []\<rparr>
        scenario_df = Inl (AttributeError ''sort_index'')"
proof -
  have "isl (load (ld\<lparr>label_col := None\<rparr>) csv)"
    by (simp add: load_def Let_def TrajectoryData_None)
  moreover have
    "load \<lparr>tid_col = ''tid'', label_col = None, lat = ''lat'', lon = ''lon'', drop_col = []\<rparr>
       scenario_df = Inl (AttributeError ''sort_index'')"
    by (simp add: load_def Let_def rename_def rename_dict_def usecols_def scenario_df_def
        TrajectoryData_def sort_values_def sort_by_cell_def)
  ultimately show ?thesis by simp
qed

text \<open>
  C3. The specification says that \<^verbatim>\<open>merge(inplace=False)\<close> returns a new dataset and
  leaves both inputs alone, and that \<^verbatim>\<open>merge(inplace=True)\<close> returns the receiver with
  the other's new trajectories added. On the code, for the two datasets constructed from
  the scenario's table and the second table, both calls raise \<^verbatim>\<open>AttributeError\<close> at
  line 161 (\<^verbatim>\<open>self.attributes\<close> was never assigned) and the receiver stays as it was; and
  on two objects whose attributes are all assigned, \<^verbatim>\<open>merge(inplace=False)\<close> raises
  \<^verbatim>\<open>TypeError\<close> at line 185, which calls the two-parameter constructor with four
  arguments.
\<close>

theorem C3_merge_raises:
  "merge scenario_obj other_obj True False = (Inl (AttributeError ''attributes''), scenario_obj)
   \<and> merge scenario_obj other_obj True True = (Inl (AttributeError ''attributes''), scenario_obj)
   \<and> merge store_a store_b True False = (Inl constructor_arity, store_a)"
proof -
  have "merge store_a store_b True False = (Inl constructor_arity, store_a)"
    by (simp add: merge_def store_merge_build)
  then show ?thesis by (simp add: scenario_merge)
qed

text \<open>
  C5. The specification says that a merge with \<^verbatim>\<open>ignore_duplicates=False\<close> of two
  datasets that share a tid fails with the duplicate-tid error naming the tid, and
  leaves the receiver unchanged. On the code, for the two constructed datasets (which
  share tid 2) the call raises \<^verbatim>\<open>AttributeError\<close> at line 161, before any tid is
  looked at; the receiver is unchanged.
\<close>

theorem C5_duplicate_merge_raises_attribute_error:
  "merge scenario_obj other_obj False True = (Inl (AttributeError ''attributes''), scenario_obj)
   \<and> merge scenario_obj other_obj False False
       = (Inl (AttributeError ''attributes''), scenario_obj)"
  by (simp add: scenario_merge)

text \<open>
  C6. The specification says that the loader derives one label per distinct tid. On
  the code, \<^verbatim>\<open>drop_duplicates()\<close> removes repeated label \<^emph>\<open>values\<close> over the whole
  column, so of two trajectories with the same label the second loses its label, and
  the constructor then rejects the table: for a file with the rows
  \<^verbatim>\<open>1,a,park\<close> and \<^verbatim>\<open>2,a,home\<close> the call raises the label-mismatch \<^verbatim>\<open>ValueError\<close>.
\<close>

theorem C6_shared_label_rejected:
  "load default_loader shared_label_csv = Inl (ValueError labels_mismatch)"
  by (simp add: load_def Let_def default_loader_def shared_label_csv_def rename_def rename_dict_def
      usecols_def indexed_column_def column_def TrajectoryData_def sort_values_def sort_by_cell_def
      sort_index_def array_equal_def)

text \<open>
  C7. The specification says that \<^verbatim>\<open>stats()\<close> computes the summary once and caches it.
  On the code, for the constructed scenario dataset \<^verbatim>\<open>stats()\<close> raises
  \<^verbatim>\<open>AttributeError\<close> at line 215 (\<^verbatim>\<open>self._stats\<close> was never assigned), with and
  without \<^verbatim>\<open>print_stats\<close>, and computes nothing.
\<close>

theorem C7_stats_raises:
  "stats scenario_obj False = (Inl (AttributeError ''_stats''), scenario_obj)
   \<and> stats scenario_obj True = (Inl (AttributeError ''_stats''), scenario_obj)"
  by (simp add: stats_def scenario_obj_def new_obj_def)

text \<open>
  C8. The specification says that the export writes the header and one line per point.
  On the code, \<^verbatim>\<open>to_file\<close> with the type \<^verbatim>\<open>csv\<close> raises for every object. For the
  constructed scenario dataset it raises \<^verbatim>\<open>AttributeError\<close> before the file is
  opened; for an object whose attributes are all assigned it writes the header line and
  then raises \<^verbatim>\<open>NameError\<close> (\<^verbatim>\<open>delayed\<close> is not defined), so no line for a point is
  ever written.
\<close>

theorem C8_export_raises:
  "isl (fst (to_file self ''csv'' n))
   \<and> to_file scenario_obj ''csv'' 1 = (Inl (AttributeError ''tids''), None)
   \<and> to_file store_a ''csv'' 1
       = (Inl (NameError ''delayed''), Some (''tid,label,poi'' @ [CHR 0x0A]))"
  by (simp add: to_file_def to_csv_never_returns)
    (simp add: p_to_csv_def get_tids_def get_attributes_def getattr_def scenario_obj_def new_obj_def
      store_a_simps header_line_def)

text \<open>
  C4. The specification says that construction fails with the schema error exactly when
  the identifier column is missing, and with the label-mismatch error exactly when the
  de-duplicated label keys differ from the distinct tids. The code compares the sorted
  label index as it is, so labels that repeat a key are rejected although their key set
  is the tid set (the counterexample). As amended: the schema error is raised exactly
  when the \<^verbatim>\<open>tid\<close> column is missing; and for a table whose \<^verbatim>\<open>tid\<close> column is
  there once, with tids that can be ordered, and labels whose keys can be ordered,
  the label-mismatch error is raised exactly when a label key is repeated or the set of
  label keys differs from the set of tids, and otherwise the construction succeeds.
  (What the constructor does without labels is claim C2.)
\<close>

theorem C4_construction_errors:
  "(TrajectoryData df lbls = Inl (ValueError no_tid_column) \<longleftrightarrow> ''tid'' \<notin> set (columns df))
   \<and> (count_list (columns df) ''tid'' = 1 \<and> comparable (column df ''tid'')
        \<and> comparable (map fst s) \<longrightarrow>
       (TrajectoryData df (Some s) = Inl (ValueError labels_mismatch)
          \<longleftrightarrow> \<not> distinct (map fst s) \<or> set (map fst s) \<noteq> set (column df ''tid''))
       \<and> ((\<exists>ob. TrajectoryData df (Some s) = Inr ob)
          \<longleftrightarrow> distinct (map fst s) \<and> set (map fst s) = set (column df ''tid'')))"
  using schema_error_iff [of df lbls] labelled_construction [of df s] by blast

theorem C4_repeated_key_counterexample:
  "''tid'' \<in> set (columns dup_df)
   \<and> set (remdups (map fst dup_labels)) = set (remdups (column dup_df ''tid''))
   \<and> TrajectoryData dup_df (Some dup_labels) = Inl (ValueError labels_mismatch)"
  by (simp add: dup_df_def dup_labels_def column_def TrajectoryData_def sort_values_def
      sort_by_cell_def sort_index_def array_equal_def)

theorem C4_construction_errors_witness:
  "count_list (columns scenario_df) ''tid'' = 1 \<and> comparable (column scenario_df ''tid'')
   \<and> comparable (map fst scenario_labels)
   \<and> distinct (map fst scenario_labels)
   \<and> set (map fst scenario_labels) = set (column scenario_df ''tid'')
   \<and> (\<exists>ob. TrajectoryData scenario_df (Some scenario_labels) = Inr ob)
   \<and> ''tid'' \<in> set (columns scenario_df)
   \<and> TrajectoryData scenario_df (Some scenario_labels) \<noteq> Inl (ValueError no_tid_column)
   \<and> TrajectoryData scenario_df (Some scenario_labels) \<noteq> Inl (ValueError labels_mismatch)"
proof -
  have h: "count_list (columns scenario_df) ''tid'' = 1 \<and> comparable (column scenario_df ''tid'')
      \<and> comparable (map fst scenario_labels)"
    by (simp add: scenario_df_def scenario_labels_def comparable_def column_def)
  have d: "distinct (map fst scenario_labels)
      \<and> set (map fst scenario_labels) = set (column scenario_df ''tid'')"
    by (auto simp: scenario_df_def scenario_labels_def column_def)
  have t: "''tid'' \<in> set (columns scenario_df)" by (simp add: scenario_df_def)
  show ?thesis
    using C4_construction_errors [of scenario_df "Some scenario_labels" scenario_labels] h d t by blast
qed

text \<open>
  C9. The specification says that after construction and after every merge the tids are
  in ascending order and the positional trajectory and label structures are aligned to
  that order. On the code, the constructor sorts the table by tid and stops there: for
  the scenario the stored table is in ascending order of tid, but \<^verbatim>\<open>tids\<close> and
  \<^verbatim>\<open>tidToIdx\<close> are never assigned and \<^verbatim>\<open>data\<close> is still the table, so there is no
  list of tids to be in order (\<^verbatim>\<open>get_tids()\<close> raises \<^verbatim>\<open>AttributeError\<close>) and no
  trajectory by position (\<^verbatim>\<open>get_trajectory(1)\<close> raises); and no merge of constructed
  datasets returns, the scenario dataset being the receiver or the other.
\<close>

theorem C9_constructed_dataset_has_no_tids:
  "TrajectoryData scenario_df (Some scenario_labels) = Inr scenario_obj
   \<and> (\<exists>f. data scenario_obj = Some (DataFrame f) \<and> ascending (column f ''tid''))
   \<and> tids scenario_obj = None \<and> tidToIdx scenario_obj = None
   \<and> get_tids scenario_obj None = Inl (AttributeError ''tids'')
   \<and> get_trajectory scenario_obj (IntV 1) = Inl (AttributeError ''tidToIdx'')
   \<and> merge scenario_obj other_obj True True = (Inl (AttributeError ''attributes''), scenario_obj)
   \<and> merge other_obj scenario_obj True True = (Inl (AttributeError ''attributes''), other_obj)"
proof -
  have "\<exists>f. data scenario_obj = Some (DataFrame f) \<and> ascending (column f ''tid'')"
    by (simp add: scenario_obj_def new_obj_def ascending_def column_def)
  moreover have "tids scenario_obj = None" "tidToIdx scenario_obj = None"
    by (simp_all add: scenario_obj_def new_obj_def)
  moreover have "get_tids scenario_obj None = Inl (AttributeError ''tids'')"
    by (simp add: get_tids_def getattr_def scenario_obj_def new_obj_def)
  moreover have "get_trajectory scenario_obj (IntV 1) = Inl (AttributeError ''tidToIdx'')"
    by (simp add: get_trajectory_def tid_idx_def scenario_obj_def new_obj_def)
  moreover have
    "merge other_obj scenario_obj True True = (Inl (AttributeError ''attributes''), other_obj)"
    by (simp add: merge_def merge_build_def other_obj_def new_obj_def)
  ultimately show ?thesis using scenario_constructed scenario_merge by simp
qed




end
